theory Spec2Isabelle
  imports Complex_Main
begin

text \<open>
  The game runner of the crawlerverse Python SDK (\<^verbatim>\<open>runner.py\<close>) and the error mapping
  of its HTTP client (\<^verbatim>\<open>_base_client.py\<close>), embedded in HOL: the data model first,
  then the functions, then what they are proved to do.
\<close>

section \<open>Data model (models.py, types.py, actions.py)\<close>

text \<open>
  The enums of \<^verbatim>\<open>types.py\<close> and the pydantic models of \<^verbatim>\<open>models.py\<close> and
  \<^verbatim>\<open>actions.py\<close>. A field whose name is shared by several Python classes, or is
  a HOL constant, carries a prefix here, since a record field is a global name.
\<close>

datatype Direction =
  NORTH | SOUTH | EAST | WEST | NORTHEAST | NORTHWEST | SOUTHEAST | SOUTHWEST

datatype TileType = FLOOR | WALL | STAIRS_DOWN | STAIRS_UP | DOOR | PORTAL

record Monster =
  monster_type :: string
  monster_hp :: int
  monster_max_hp :: int

record VisibleTile =
  tile_x :: int
  tile_y :: int
  tile_type :: TileType
  tile_items :: "string list"
  tile_monster :: "Monster option"

record InventoryItem =
  item_id :: string
  item_type :: string
  item_name :: string

record Player =
  position :: "int \<times> int"
  hp :: int
  max_hp :: int
  attack :: int
  defense :: int
  equipped_weapon :: "string option"
  equipped_armor :: "string option"

record Observation =
  turn :: int
  floor_num :: int
  player :: Player
  inventory :: "InventoryItem list"
  visible_tiles :: "VisibleTile list"
  messages :: "string list"

datatype CompletedResult = victory | death

datatype AbandonedReason = timeout | disconnected

text \<open>
  The union \<^verbatim>\<open>InProgressOutcome | CompletedOutcome | AbandonedOutcome\<close>; the last two
  carry \<^verbatim>\<open>result\<close> or \<^verbatim>\<open>reason\<close>, then \<^verbatim>\<open>floor\<close> and \<^verbatim>\<open>turns\<close>.
\<close>

datatype Outcome =
    InProgressOutcome
  | CompletedOutcome CompletedResult int int
  | AbandonedOutcome AbandonedReason int int

text \<open>The nine action classes; the last argument of each is \<^verbatim>\<open>reasoning\<close>.\<close>

datatype Action =
    Move Direction "string option"
  | Attack Direction "string option"
  | Wait "string option"
  | Pickup "string option"
  | Drop string "string option"
  | Use string "string option"
  | Equip string "string option"
  | EnterPortal "string option"
  | RangedAttack Direction int "string option"

record CreateGameResponse =
  cg_game_id :: string
  cg_observation :: Observation
  cg_spectator_url :: string

record ActionResponse =
  ar_observation :: Observation
  ar_outcome :: Outcome

record GameStateResponse =
  gs_observation :: Observation
  gs_outcome :: Outcome

record GameResult =
  gr_game_id :: string
  gr_spectator_url :: string
  gr_outcome :: Outcome

section \<open>Decoded JSON and exceptions (exceptions.py)\<close>

text \<open>
  What \<^verbatim>\<open>response.json()\<close> yields: Python's \<^verbatim>\<open>None\<close>, \<^verbatim>\<open>bool\<close>, \<^verbatim>\<open>int\<close>,
  \<^verbatim>\<open>float\<close> (a finite one, as a rational), \<^verbatim>\<open>str\<close>, \<^verbatim>\<open>list\<close> and \<^verbatim>\<open>dict\<close>
  (its items in order, keys distinct).
\<close>

datatype json =
    JNull
  | JBool bool
  | JInt int
  | JFloat rat
  | JStr string
  | JArr "json list"
  | JObj "(string \<times> json) list"

text \<open>
  Python exceptions as values. The first eight are the classes of \<^verbatim>\<open>exceptions.py\<close>
  with their attributes (\<^verbatim>\<open>status_code\<close>, \<^verbatim>\<open>message\<close>, then \<^verbatim>\<open>details\<close>,
  \<^verbatim>\<open>outcome\<close>, \<^verbatim>\<open>code\<close> or \<^verbatim>\<open>retry_after\<close>). Python checks none of the
  annotations when the exception is built, so \<^verbatim>\<open>message\<close>, \<^verbatim>\<open>details\<close> and
  \<^verbatim>\<open>code\<close> hold whatever the body held, and \<^verbatim>\<open>outcome\<close> any of the three outcome
  classes. \<open>RuntimeError\<close> carries its message and its \<^verbatim>\<open>__cause__\<close>.
  \<open>PyException\<close> is any other subclass of \<^verbatim>\<open>Exception\<close> (class name, message);
  \<open>PyBaseException\<close> is an exception that derives from \<^verbatim>\<open>BaseException\<close> but
  not from \<^verbatim>\<open>Exception\<close> (\<^verbatim>\<open>KeyboardInterrupt\<close>, \<^verbatim>\<open>SystemExit\<close>,
  \<^verbatim>\<open>GeneratorExit\<close>).
\<close>

datatype exn =
    CrawlerAPIError int json
  | AuthenticationError int json
  | ForbiddenError int json
  | NotFoundError int json
  | ValidationError int json json
  | GameOverError int json Outcome
  | InvalidActionError int json json
  | RateLimitError int json int
  | RuntimeError string "exn option"
  | PyException string string
  | PyBaseException string string

text \<open>\<^verbatim>\<open>isinstance(e, Exception)\<close>: what a clause \<^verbatim>\<open>except Exception\<close> catches.\<close>

fun is_Exception :: "exn \<Rightarrow> bool" where
  "is_Exception (PyBaseException cls msg) = False"
| "is_Exception e = True"

text \<open>
  Errors raised by the Python library. Their message texts are shortened to the fixed
  part of the message.
\<close>

definition ValueError :: "string \<Rightarrow> exn" where
  "ValueError msg = PyException ''ValueError'' msg"

definition PydanticValidationError :: "string \<Rightarrow> exn" where
  "PydanticValidationError msg = PyException ''pydantic_core.ValidationError'' msg"

section \<open>Library functions the code calls\<close>

text \<open>Python's truth value of a decoded JSON value (\<^verbatim>\<open>if outcome_data:\<close>).\<close>

fun truthy :: "json \<Rightarrow> bool" where
  "truthy JNull = False"
| "truthy (JBool b) = b"
| "truthy (JInt i) = (i \<noteq> 0)"
| "truthy (JFloat r) = (r \<noteq> 0)"
| "truthy (JStr s) = (s \<noteq> [])"
| "truthy (JArr xs) = (xs \<noteq> [])"
| "truthy (JObj kvs) = (kvs \<noteq> [])"

text \<open>\<^verbatim>\<open>d.get(key, default)\<close> on a dict.\<close>

definition dict_get :: "('k \<rightharpoonup> 'v) \<Rightarrow> 'k \<Rightarrow> 'v \<Rightarrow> 'v" where
  "dict_get d k dflt = (case d k of None \<Rightarrow> dflt | Some v \<Rightarrow> v)"

text \<open>
  \<^verbatim>\<open>int(s)\<close> on an ASCII string: surrounding whitespace (tab, line feed, vertical
  tab, form feed, carriage return, space) is dropped, one sign is allowed, then decimal
  digits follow, with single underscores between digits. Anything else raises
  \<^verbatim>\<open>ValueError\<close>. (The interpreter's cap on the number of digits, 4300 by
  default, is left out: no header of that length is considered.)
\<close>

definition py_isspace :: "char \<Rightarrow> bool" where
  "py_isspace c = (of_char c \<in> {9, 10, 11, 12, 13, 32 :: nat})"

definition py_isdigit :: "char \<Rightarrow> bool" where
  "py_isdigit c = (48 \<le> (of_char c :: nat) \<and> (of_char c :: nat) \<le> 57)"

definition digit_value :: "char \<Rightarrow> nat" where
  "digit_value c = of_char c - 48"

definition py_strip :: "string \<Rightarrow> string" where
  "py_strip s = rev (dropWhile py_isspace (rev (dropWhile py_isspace s)))"

fun parse_digits :: "nat \<Rightarrow> string \<Rightarrow> nat option" where
  "parse_digits acc [] = Some acc"
| "parse_digits acc [c] =
     (if py_isdigit c then Some (10 * acc + digit_value c) else None)"
| "parse_digits acc (c # d # cs) =
     (if py_isdigit c then parse_digits (10 * acc + digit_value c) (d # cs)
      else if c = CHR ''_'' \<and> py_isdigit d then parse_digits acc (d # cs)
      else None)"

definition int_literal_error :: exn where
  "int_literal_error = ValueError ''invalid literal for int() with base 10''"

definition py_int :: "string \<Rightarrow> exn + int" where
  "py_int s =
     (let t = py_strip s;
          neg = (t \<noteq> [] \<and> hd t = CHR ''-'');
          digits = (if t \<noteq> [] \<and> (hd t = CHR ''-'' \<or> hd t = CHR ''+'') then tl t else t)
      in if digits = [] \<or> \<not> py_isdigit (hd digits) then Inl int_literal_error
         else (case parse_digits 0 digits of
                 None \<Rightarrow> Inl int_literal_error
               | Some n \<Rightarrow> Inr (if neg then - int n else int n)))"

text \<open>\<^verbatim>\<open>str(i)\<close> for an \<^verbatim>\<open>int\<close>, as an f-string renders it.\<close>

definition digit_char :: "nat \<Rightarrow> char" where
  "digit_char d = ''0123456789'' ! d"

function str_nat :: "nat \<Rightarrow> string" where
  "str_nat n = (if n < 10 then [digit_char n] else str_nat (n div 10) @ [digit_char (n mod 10)])"
  by pat_completeness auto
termination
  by (relation "measure id") auto

definition str_int :: "int \<Rightarrow> string" where
  "str_int i = (if i < 0 then CHR ''-'' # str_nat (nat (- i)) else str_nat (nat i))"

section \<open>map_error_response (_base_client.py)\<close>

text \<open>
  \<^verbatim>\<open>parse_outcome\<close> of \<^verbatim>\<open>models.py\<close> hands its argument to the pydantic adapter
  \<^verbatim>\<open>_outcome_adapter\<close> and returns what \<^verbatim>\<open>validate_python\<close> returns or raises. The
  adapter is pydantic's, so it is a parameter here.
\<close>

type_synonym outcome_adapter = "json \<Rightarrow> exn + Outcome"

definition parse_outcome :: "outcome_adapter \<Rightarrow> json \<Rightarrow> exn + Outcome" where
  "parse_outcome validate_python data = validate_python data"

text \<open>
  \<^verbatim>\<open>map_error_response(status_code, body, headers)\<close>. Every path of the source ends in
  a \<^verbatim>\<open>raise\<close>, or in a call that raises (\<^verbatim>\<open>int\<close>, \<^verbatim>\<open>parse_outcome\<close>); the value
  here is the exception that leaves the function.
\<close>

definition map_error_response ::
  "outcome_adapter \<Rightarrow> int \<Rightarrow> (string \<rightharpoonup> json) \<Rightarrow> (string \<rightharpoonup> string) \<Rightarrow> exn" where
  "map_error_response validate_python status_code body headers =
     (let message = dict_get body ''error'' (JStr ''Unknown error'') in
      if status_code = 400 then
        ValidationError 400 message (dict_get body ''details'' JNull)
      else if status_code = 401 then AuthenticationError 401 message
      else if status_code = 403 then ForbiddenError 403 message
      else if status_code = 404 then NotFoundError 404 message
      else if status_code = 409 then
        (let outcome_data = dict_get body ''outcome'' JNull in
         if truthy outcome_data then
           (case parse_outcome validate_python outcome_data of
              Inl e \<Rightarrow> e
            | Inr outcome \<Rightarrow> GameOverError 409 message outcome)
         else CrawlerAPIError 409 message)
      else if status_code = 422 then
        InvalidActionError 422 message (dict_get body ''code'' (JStr ''UNKNOWN''))
      else if status_code = 429 then
        (case py_int (dict_get headers ''retry-after'' ''60'') of
           Inl e \<Rightarrow> e
         | Inr retry_after \<Rightarrow> RateLimitError 429 message retry_after)
      else CrawlerAPIError status_code message)"

text \<open>
  An adapter for the examples: it accepts the wire shapes the service documents, a dict
  with \<^verbatim>\<open>status\<close> and, for a finished game, \<^verbatim>\<open>result\<close> or \<^verbatim>\<open>reason\<close> and integer
  \<^verbatim>\<open>floor\<close> and \<^verbatim>\<open>turns\<close>, and rejects every other value.
\<close>

definition wire_result :: "json \<Rightarrow> CompletedResult option" where
  "wire_result j = (if j = JStr ''victory'' then Some victory
                    else if j = JStr ''death'' then Some death else None)"

definition wire_reason :: "json \<Rightarrow> AbandonedReason option" where
  "wire_reason j = (if j = JStr ''timeout'' then Some timeout
                    else if j = JStr ''disconnected'' then Some disconnected else None)"

definition wire_adapter :: outcome_adapter where
  "wire_adapter data =
     (case data of
        JObj kvs \<Rightarrow>
          (case (map_of kvs ''status'', map_of kvs ''result'', map_of kvs ''reason'',
                 map_of kvs ''floor'', map_of kvs ''turns'') of
             (Some (JStr s), r, a, f, t) \<Rightarrow>
               (if s = ''in_progress'' then Inr InProgressOutcome
                else (case (f, t) of
                        (Some (JInt fl), Some (JInt tu)) \<Rightarrow>
                          (if s = ''completed'' then
                             (case r of
                                Some j \<Rightarrow> (case wire_result j of
                                   Some res \<Rightarrow> Inr (CompletedOutcome res fl tu)
                                 | None \<Rightarrow> Inl (PydanticValidationError ''literal_error''))
                              | None \<Rightarrow> Inl (PydanticValidationError ''missing''))
                           else if s = ''abandoned'' then
                             (case a of
                                Some j \<Rightarrow> (case wire_reason j of
                                   Some rea \<Rightarrow> Inr (AbandonedOutcome rea fl tu)
                                 | None \<Rightarrow> Inl (PydanticValidationError ''literal_error''))
                              | None \<Rightarrow> Inl (PydanticValidationError ''missing''))
                           else Inl (PydanticValidationError ''union_tag_invalid''))
                      | _ \<Rightarrow> Inl (PydanticValidationError ''int_type'')))
           | _ \<Rightarrow> Inl (PydanticValidationError ''union_tag_not_found''))
      | _ \<Rightarrow> Inl (PydanticValidationError ''model_attributes_type''))"

section \<open>The runner's collaborators (runner.py)\<close>

text \<open>
  The client, the decision function and the step callback are Python callables with
  effects: each takes the state \<open>'w\<close> of everything outside the runner (the service,
  the caller's variables) and returns what it returns or raises, with the new state.
  \<open>games_create\<close>, \<open>games_get\<close> and \<open>games_action\<close> are \<^verbatim>\<open>client.games.create\<close>,
  \<^verbatim>\<open>client.games.get\<close> and \<^verbatim>\<open>client.games.action\<close>.
\<close>

type_synonym ('a, 'w) effect = "'w \<Rightarrow> (exn + 'a) \<times> 'w"

record 'w CrawlerClient =
  games_create :: "string option \<Rightarrow> (CreateGameResponse, 'w) effect"
  games_get :: "string \<Rightarrow> (GameStateResponse, 'w) effect"
  games_action :: "string \<Rightarrow> Action \<Rightarrow> (ActionResponse, 'w) effect"

type_synonym 'w agent = "Observation \<Rightarrow> (Action, 'w) effect"

type_synonym 'w step_callback = "Observation \<Rightarrow> Action \<Rightarrow> (unit, 'w) effect"

text \<open>
  The calls the runner makes, in the order it makes them: the trace a run leaves.
  A submit is recorded with what it returned or raised. The \<^verbatim>\<open>logger\<close> calls are left
  out: they take no part in the control flow.
\<close>

datatype event =
    CallCreate "string option"
  | CallGet string
  | CallAgent Observation
  | CallAction string Action "exn + ActionResponse"
  | CallSleep int
  | CallOnStep Observation Action

text \<open>
  \<^verbatim>\<open>GameResult(game_id=..., spectator_url=..., outcome=...)\<close>: pydantic validates the
  fields, and the field \<^verbatim>\<open>outcome: CompletedOutcome | AbandonedOutcome\<close> refuses an
  \<^verbatim>\<open>InProgressOutcome\<close>.
\<close>

definition mk_GameResult :: "string \<Rightarrow> string \<Rightarrow> Outcome \<Rightarrow> exn + GameResult" where
  "mk_GameResult game_id spectator_url outcome =
     (case outcome of
        InProgressOutcome \<Rightarrow> Inl (PydanticValidationError ''model_type'')
      | _ \<Rightarrow> Inr \<lparr>gr_game_id = game_id, gr_spectator_url = spectator_url,
                 gr_outcome = outcome\<rparr>)"

text \<open>
  The two sleep primitives. \<open>elapse secs\<close> is what that many seconds do to the state
  outside. \<^verbatim>\<open>time.sleep\<close> raises \<^verbatim>\<open>ValueError\<close> on a negative length;
  \<^verbatim>\<open>asyncio.sleep\<close> takes a delay of zero or less as a bare yield to the event loop.
  (Lengths beyond the range of the platform's clock, some centuries, are left out.)
\<close>

definition time_sleep :: "(int \<Rightarrow> 'w \<Rightarrow> 'w) \<Rightarrow> int \<Rightarrow> (unit, 'w) effect" where
  "time_sleep elapse secs w =
     (if secs < 0 then (Inl (ValueError ''sleep length must be non-negative''), w)
      else (Inr (), elapse secs w))"

definition asyncio_sleep :: "(int \<Rightarrow> 'w \<Rightarrow> 'w) \<Rightarrow> int \<Rightarrow> (unit, 'w) effect" where
  "asyncio_sleep elapse delay w =
     (if delay \<le> 0 then (Inr (), elapse 0 w) else (Inr (), elapse delay w))"

text \<open>The message of the \<^verbatim>\<open>RuntimeError\<close> that wraps a failure of the decision function.\<close>

definition agent_failed_message :: "string \<Rightarrow> Observation \<Rightarrow> string" where
  "agent_failed_message game_id observation =
     ''Agent function failed [game='' @ game_id @ '', turn='' @ str_int (turn observation) @ '']''"

text \<open>\<^verbatim>\<open>if on_step is not None: on_step(observation, action)\<close>.\<close>

definition call_on_step ::
  "'w step_callback option \<Rightarrow> Observation \<Rightarrow> Action \<Rightarrow> 'w \<Rightarrow> event list
   \<Rightarrow> (exn + unit) \<times> 'w \<times> event list" where
  "call_on_step on_step observation action w tr =
     (case on_step of
        None \<Rightarrow> (Inr (), w, tr)
      | Some f \<Rightarrow> (case f observation action w of
                     (r, w') \<Rightarrow> (r, w', tr @ [CallOnStep observation action])))"

section \<open>run_game (runner.py)\<close>

text \<open>
  One pass through the body of \<^verbatim>\<open>while True\<close>. The loop's variables are
  \<open>observation\<close> and \<open>consecutive_invalid\<close>; a pass ends in \<open>Continue\<close> with their
  new values (a \<^verbatim>\<open>continue\<close>, or the end of the body), or in \<open>Finish\<close> with what
  \<^verbatim>\<open>run_game\<close> returns (\<open>Inr\<close>) or raises (\<open>Inl\<close>).
\<close>

datatype flow = Continue Observation int | Finish "exn + GameResult"

definition run_game_turn ::
  "(int \<Rightarrow> 'w \<Rightarrow> 'w) \<Rightarrow> 'w CrawlerClient \<Rightarrow> 'w agent \<Rightarrow> int \<Rightarrow> 'w step_callback option
   \<Rightarrow> string \<Rightarrow> string \<Rightarrow> Observation \<Rightarrow> int \<Rightarrow> 'w \<Rightarrow> event list
   \<Rightarrow> flow \<times> 'w \<times> event list" where
  "run_game_turn elapse client agent_fn max_invalid_actions on_step
       game_id spectator_url observation consecutive_invalid w tr =
     (case agent_fn observation w of
        (Inl e, w1) \<Rightarrow>
          (Finish (Inl (if is_Exception e
                        then RuntimeError (agent_failed_message game_id observation) (Some e)
                        else e)),
           w1, tr @ [CallAgent observation])
      | (Inr action, w1) \<Rightarrow>
          (case games_action client game_id action w1 of
             (Inl e, w2) \<Rightarrow>
               (let tr2 = tr @ [CallAgent observation, CallAction game_id action (Inl e)] in
                case e of
                  InvalidActionError sc msg code \<Rightarrow>
                    (if consecutive_invalid + 1 \<ge> max_invalid_actions
                     then (Finish (Inl e), w2, tr2)
                     else (Continue observation (consecutive_invalid + 1), w2, tr2))
                | RateLimitError sc msg retry_after \<Rightarrow>
                    (case time_sleep elapse retry_after w2 of
                       (Inl e', w3) \<Rightarrow> (Finish (Inl e'), w3, tr2 @ [CallSleep retry_after])
                     | (Inr u, w3) \<Rightarrow>
                         (Continue observation consecutive_invalid, w3,
                          tr2 @ [CallSleep retry_after]))
                | GameOverError sc msg outcome \<Rightarrow>
                    (Finish (mk_GameResult game_id spectator_url outcome), w2, tr2)
                | _ \<Rightarrow> (Finish (Inl e), w2, tr2))
           | (Inr result, w2) \<Rightarrow>
               (case call_on_step on_step observation action w2
                       (tr @ [CallAgent observation, CallAction game_id action (Inr result)]) of
                  (Inl e, w3, tr3) \<Rightarrow> (Finish (Inl e), w3, tr3)
                | (Inr u, w3, tr3) \<Rightarrow>
                    (if ar_outcome result \<noteq> InProgressOutcome
                     then (Finish (mk_GameResult game_id spectator_url (ar_outcome result)),
                           w3, tr3)
                     else (Continue (ar_observation result) 0, w3, tr3)))))"

text \<open>
  \<^verbatim>\<open>while True\<close>: nothing bounds the number of passes (a service that answers every
  submit with a rate limit keeps the loop going for ever), so the loop takes fuel, one
  unit per pass, and \<open>None\<close> is a run that has not ended when the fuel is spent.
\<close>

fun run_game_loop ::
  "nat \<Rightarrow> (int \<Rightarrow> 'w \<Rightarrow> 'w) \<Rightarrow> 'w CrawlerClient \<Rightarrow> 'w agent \<Rightarrow> int \<Rightarrow> 'w step_callback option
   \<Rightarrow> string \<Rightarrow> string \<Rightarrow> Observation \<Rightarrow> int \<Rightarrow> 'w \<Rightarrow> event list
   \<Rightarrow> ((exn + GameResult) \<times> 'w \<times> event list) option" where
  "run_game_loop 0 elapse client agent_fn max_invalid_actions on_step
       game_id spectator_url observation consecutive_invalid w tr = None"
| "run_game_loop (Suc fuel) elapse client agent_fn max_invalid_actions on_step
       game_id spectator_url observation consecutive_invalid w tr =
     (case run_game_turn elapse client agent_fn max_invalid_actions on_step
             game_id spectator_url observation consecutive_invalid w tr of
        (Continue observation' consecutive_invalid', w', tr') \<Rightarrow>
          run_game_loop fuel elapse client agent_fn max_invalid_actions on_step
            game_id spectator_url observation' consecutive_invalid' w' tr'
      | (Finish r, w', tr') \<Rightarrow> Some (r, w', tr'))"

text \<open>
  \<^verbatim>\<open>run_game(client, agent_fn, model_id=, game_id=, max_invalid_actions=, on_step=)\<close>,
  run on the state \<open>w\<close> with the given fuel for its loop.
\<close>

definition run_game ::
  "nat \<Rightarrow> (int \<Rightarrow> 'w \<Rightarrow> 'w) \<Rightarrow> 'w CrawlerClient \<Rightarrow> 'w agent \<Rightarrow> string option \<Rightarrow> string option
   \<Rightarrow> int \<Rightarrow> 'w step_callback option \<Rightarrow> 'w
   \<Rightarrow> ((exn + GameResult) \<times> 'w \<times> event list) option" where
  "run_game fuel elapse client agent_fn model_id game_id max_invalid_actions on_step w =
     (case game_id of
        Some gid \<Rightarrow>
          (case games_get client gid w of
             (Inl e, w1) \<Rightarrow> Some (Inl e, w1, [CallGet gid])
           | (Inr state, w1) \<Rightarrow>
               (if gs_outcome state \<noteq> InProgressOutcome
                then Some (mk_GameResult gid [] (gs_outcome state), w1, [CallGet gid])
                else run_game_loop fuel elapse client agent_fn max_invalid_actions on_step
                       gid [] (gs_observation state) 0 w1 [CallGet gid]))
      | None \<Rightarrow>
          (case games_create client model_id w of
             (Inl e, w1) \<Rightarrow> Some (Inl e, w1, [CallCreate model_id])
           | (Inr game, w1) \<Rightarrow>
               run_game_loop fuel elapse client agent_fn max_invalid_actions on_step
                 (cg_game_id game) (cg_spectator_url game) (cg_observation game) 0 w1
                 [CallCreate model_id]))"

text \<open>The default of the keyword argument \<^verbatim>\<open>max_invalid_actions\<close>.\<close>

definition default_max_invalid_actions :: int where
  "default_max_invalid_actions = 5"

section \<open>async_run_game (runner.py)\<close>

text \<open>
  The second function of the module, written out as the source writes it out: the same
  body with the client's calls awaited and \<^verbatim>\<open>asyncio.sleep\<close> for the backoff.
\<close>

definition async_run_game_turn ::
  "(int \<Rightarrow> 'w \<Rightarrow> 'w) \<Rightarrow> 'w CrawlerClient \<Rightarrow> 'w agent \<Rightarrow> int \<Rightarrow> 'w step_callback option
   \<Rightarrow> string \<Rightarrow> string \<Rightarrow> Observation \<Rightarrow> int \<Rightarrow> 'w \<Rightarrow> event list
   \<Rightarrow> flow \<times> 'w \<times> event list" where
  "async_run_game_turn elapse client agent_fn max_invalid_actions on_step
       game_id spectator_url observation consecutive_invalid w tr =
     (case agent_fn observation w of
        (Inl e, w1) \<Rightarrow>
          (Finish (Inl (if is_Exception e
                        then RuntimeError (agent_failed_message game_id observation) (Some e)
                        else e)),
           w1, tr @ [CallAgent observation])
      | (Inr action, w1) \<Rightarrow>
          (case games_action client game_id action w1 of
             (Inl e, w2) \<Rightarrow>
               (let tr2 = tr @ [CallAgent observation, CallAction game_id action (Inl e)] in
                case e of
                  InvalidActionError sc msg code \<Rightarrow>
                    (if consecutive_invalid + 1 \<ge> max_invalid_actions
                     then (Finish (Inl e), w2, tr2)
                     else (Continue observation (consecutive_invalid + 1), w2, tr2))
                | RateLimitError sc msg retry_after \<Rightarrow>
                    (case asyncio_sleep elapse retry_after w2 of
                       (Inl e', w3) \<Rightarrow> (Finish (Inl e'), w3, tr2 @ [CallSleep retry_after])
                     | (Inr u, w3) \<Rightarrow>
                         (Continue observation consecutive_invalid, w3,
                          tr2 @ [CallSleep retry_after]))
                | GameOverError sc msg outcome \<Rightarrow>
                    (Finish (mk_GameResult game_id spectator_url outcome), w2, tr2)
                | _ \<Rightarrow> (Finish (Inl e), w2, tr2))
           | (Inr result, w2) \<Rightarrow>
               (case call_on_step on_step observation action w2
                       (tr @ [CallAgent observation, CallAction game_id action (Inr result)]) of
                  (Inl e, w3, tr3) \<Rightarrow> (Finish (Inl e), w3, tr3)
                | (Inr u, w3, tr3) \<Rightarrow>
                    (if ar_outcome result \<noteq> InProgressOutcome
                     then (Finish (mk_GameResult game_id spectator_url (ar_outcome result)),
                           w3, tr3)
                     else (Continue (ar_observation result) 0, w3, tr3)))))"

fun async_run_game_loop ::
  "nat \<Rightarrow> (int \<Rightarrow> 'w \<Rightarrow> 'w) \<Rightarrow> 'w CrawlerClient \<Rightarrow> 'w agent \<Rightarrow> int \<Rightarrow> 'w step_callback option
   \<Rightarrow> string \<Rightarrow> string \<Rightarrow> Observation \<Rightarrow> int \<Rightarrow> 'w \<Rightarrow> event list
   \<Rightarrow> ((exn + GameResult) \<times> 'w \<times> event list) option" where
  "async_run_game_loop 0 elapse client agent_fn max_invalid_actions on_step
       game_id spectator_url observation consecutive_invalid w tr = None"
| "async_run_game_loop (Suc fuel) elapse client agent_fn max_invalid_actions on_step
       game_id spectator_url observation consecutive_invalid w tr =
     (case async_run_game_turn elapse client agent_fn max_invalid_actions on_step
             game_id spectator_url observation consecutive_invalid w tr of
        (Continue observation' consecutive_invalid', w', tr') \<Rightarrow>
          async_run_game_loop fuel elapse client agent_fn max_invalid_actions on_step
            game_id spectator_url observation' consecutive_invalid' w' tr'
      | (Finish r, w', tr') \<Rightarrow> Some (r, w', tr'))"

definition async_run_game ::
  "nat \<Rightarrow> (int \<Rightarrow> 'w \<Rightarrow> 'w) \<Rightarrow> 'w CrawlerClient \<Rightarrow> 'w agent \<Rightarrow> string option \<Rightarrow> string option
   \<Rightarrow> int \<Rightarrow> 'w step_callback option \<Rightarrow> 'w
   \<Rightarrow> ((exn + GameResult) \<times> 'w \<times> event list) option" where
  "async_run_game fuel elapse client agent_fn model_id game_id max_invalid_actions on_step w =
     (case game_id of
        Some gid \<Rightarrow>
          (case games_get client gid w of
             (Inl e, w1) \<Rightarrow> Some (Inl e, w1, [CallGet gid])
           | (Inr state, w1) \<Rightarrow>
               (if gs_outcome state \<noteq> InProgressOutcome
                then Some (mk_GameResult gid [] (gs_outcome state), w1, [CallGet gid])
                else async_run_game_loop fuel elapse client agent_fn max_invalid_actions
                       on_step gid [] (gs_observation state) 0 w1 [CallGet gid]))
      | None \<Rightarrow>
          (case games_create client model_id w of
             (Inl e, w1) \<Rightarrow> Some (Inl e, w1, [CallCreate model_id])
           | (Inr game, w1) \<Rightarrow>
               async_run_game_loop fuel elapse client agent_fn max_invalid_actions on_step
                 (cg_game_id game) (cg_spectator_url game) (cg_observation game) 0 w1
                 [CallCreate model_id]))"

section \<open>Example collaborators\<close>

text \<open>
  The fixtures of \<^verbatim>\<open>tests/test_runner.py\<close>, for concrete runs. The state outside is
  the queue of responses the mocked service still has for \<^verbatim>\<open>POST /games/{id}/action\<close>,
  each an \<^verbatim>\<open>ActionResponse\<close> or the exception the client raises for it.
\<close>

definition example_observation :: Observation where
  "example_observation =
     \<lparr>turn = 1, floor_num = 1,
      player = \<lparr>position = (5, 5), hp = 20, max_hp = 20, attack = 5, defense = 3,
                equipped_weapon = None, equipped_armor = None\<rparr>,
      inventory = [],
      visible_tiles = [\<lparr>tile_x = 5, tile_y = 5, tile_type = FLOOR, tile_items = [],
                         tile_monster = None\<rparr>],
      messages = []\<rparr>"

definition next_observation :: Observation where
  "next_observation = example_observation\<lparr>turn := 2\<rparr>"

definition in_progress_response :: ActionResponse where
  "in_progress_response =
     \<lparr>ar_observation = next_observation, ar_outcome = InProgressOutcome\<rparr>"

definition victory_response :: ActionResponse where
  "victory_response =
     \<lparr>ar_observation = next_observation, ar_outcome = CompletedOutcome victory 5 100\<rparr>"

definition invalid_move :: exn where
  "invalid_move = InvalidActionError 422 (JStr ''Invalid'') (JStr ''INVALID_ACTION'')"

type_synonym mock_service = "(exn + ActionResponse) list"

definition mock_client :: "exn + GameStateResponse \<Rightarrow> mock_service CrawlerClient" where
  "mock_client state =
     \<lparr>games_create = (\<lambda>model_id w.
        (Inr \<lparr>cg_game_id = ''game-1'', cg_observation = example_observation,
              cg_spectator_url = ''https://crawlerver.se/spectate/game-1''\<rparr>, w)),
      games_get = (\<lambda>gid w. (state, w)),
      games_action = (\<lambda>gid action w.
        (case w of
           [] \<Rightarrow> (Inl (PyException ''httpx.TimeoutException'' ''no response''), [])
         | r # rs \<Rightarrow> (r, rs)))\<rparr>"

definition no_game :: "exn + GameStateResponse" where
  "no_game = Inl (NotFoundError 404 (JStr ''Not found''))"

definition agent_always_wait :: "mock_service agent" where
  "agent_always_wait obs w = (Inr (Wait None), w)"

definition bad_agent :: "mock_service agent" where
  "bad_agent obs w = (Inl (PyException ''ValueError'' ''Agent crashed''), w)"

definition interrupted_agent :: "mock_service agent" where
  "interrupted_agent obs w = (Inl (PyBaseException ''KeyboardInterrupt'' []), w)"

definition good_callback :: "mock_service step_callback" where
  "good_callback obs action w = (Inr (), w)"

definition bad_callback :: "mock_service step_callback" where
  "bad_callback obs action w = (Inl (RuntimeError ''Callback failed'' None), w)"

definition no_elapse :: "int \<Rightarrow> mock_service \<Rightarrow> mock_service" where
  "no_elapse secs w = w"

section \<open>Reading a trace\<close>

text \<open>
  The outcomes the service reported during a run, in order: the outcome of each submit
  that returned, and the outcome carried by each \<^verbatim>\<open>GameOverError\<close>.
\<close>

fun reported_outcome :: "event \<Rightarrow> Outcome list" where
  "reported_outcome (CallAction gid a (Inr res)) = [ar_outcome res]"
| "reported_outcome (CallAction gid a (Inl (GameOverError sc msg oc))) = [oc]"
| "reported_outcome ev = []"

definition outcomes_reported :: "event list \<Rightarrow> Outcome list" where
  "outcomes_reported tr = concat (map reported_outcome tr)"

text \<open>The observations the decision function was called with, in order.\<close>

fun decided_on :: "event \<Rightarrow> Observation list" where
  "decided_on (CallAgent obs) = [obs]"
| "decided_on ev = []"

definition agent_calls :: "event list \<Rightarrow> Observation list" where
  "agent_calls tr = concat (map decided_on tr)"


text \<open>
  The next \<open>n\<close> passes of the loop, from the state \<open>w\<close> outside, each end in a submit
  rejected with \<^verbatim>\<open>InvalidActionError\<close>: \<open>n\<close> consecutive invalid-action rejections.
\<close>

fun invalid_streak ::
  "nat \<Rightarrow> 'w CrawlerClient \<Rightarrow> 'w agent \<Rightarrow> string \<Rightarrow> Observation \<Rightarrow> 'w \<Rightarrow> bool" where
  "invalid_streak 0 client agent_fn game_id observation w = True"
| "invalid_streak (Suc n) client agent_fn game_id observation w =
     (case agent_fn observation w of
        (Inl e, w1) \<Rightarrow> False
      | (Inr action, w1) \<Rightarrow>
          (case games_action client game_id action w1 of
             (Inl (InvalidActionError sc msg code), w2) \<Rightarrow>
               invalid_streak n client agent_fn game_id observation w2
           | _ \<Rightarrow> False))"

text \<open>
  No submit is answered with a \<^verbatim>\<open>RateLimitError\<close> whose \<^verbatim>\<open>retry_after\<close> is negative,
  whatever the state outside.
\<close>

definition retry_after_nonneg :: "'w CrawlerClient \<Rightarrow> bool" where
  "retry_after_nonneg client =
     (\<forall>gid action w sc msg retry_after w'.
        games_action client gid action w = (Inl (RateLimitError sc msg retry_after), w')
        \<longrightarrow> 0 \<le> retry_after)"

section \<open>Basic facts\<close>

lemma mk_GameResult_final:
  "outcome \<noteq> InProgressOutcome \<Longrightarrow>
   mk_GameResult game_id spectator_url outcome =
     Inr \<lparr>gr_game_id = game_id, gr_spectator_url = spectator_url, gr_outcome = outcome\<rparr>"
  by (cases outcome) (simp_all add: mk_GameResult_def)

lemma mk_GameResult_Inr:
  "mk_GameResult game_id spectator_url outcome = Inr gr \<Longrightarrow>
   outcome \<noteq> InProgressOutcome \<and>
   gr = \<lparr>gr_game_id = game_id, gr_spectator_url = spectator_url, gr_outcome = outcome\<rparr>"
  by (cases outcome) (auto simp add: mk_GameResult_def)

lemma outcomes_reported_append:
  "outcomes_reported (xs @ ys) = outcomes_reported xs @ outcomes_reported ys"
  by (simp add: outcomes_reported_def)

lemma agent_calls_append:
  "agent_calls (xs @ ys) = agent_calls xs @ agent_calls ys"
  by (simp add: agent_calls_def)

text \<open>A run that has ended keeps its result when it is given more fuel.\<close>

lemma run_game_loop_more_fuel:
  "run_game_loop fuel elapse client agent_fn max_invalid_actions on_step
     game_id spectator_url observation consecutive_invalid w tr = Some res \<Longrightarrow>
   run_game_loop (fuel + k) elapse client agent_fn max_invalid_actions on_step
     game_id spectator_url observation consecutive_invalid w tr = Some res"
proof (induction fuel arbitrary: observation consecutive_invalid w tr)
  case 0
  then show ?case by simp
next
  case (Suc fuel)
  then show ?case
    by (auto split: prod.splits flow.splits)
qed

section \<open>The loop ends on the first outcome that is not in progress\<close>

text \<open>
  What one pass adds to the outcomes reported: nothing or one in-progress outcome when
  the loop goes on, and the returned result's own outcome, which is not in progress,
  when the pass returns a result.
\<close>

lemma run_game_turn_outcomes:
  assumes "run_game_turn elapse client agent_fn max_invalid_actions on_step
             game_id spectator_url observation consecutive_invalid w tr = (fl, w', tr')"
  shows "case fl of
           Continue obs' ci' \<Rightarrow>
             outcomes_reported tr' = outcomes_reported tr \<or>
             outcomes_reported tr' = outcomes_reported tr @ [InProgressOutcome]
         | Finish (Inr gr) \<Rightarrow>
             outcomes_reported tr' = outcomes_reported tr @ [gr_outcome gr] \<and>
             gr_outcome gr \<noteq> InProgressOutcome \<and>
             gr_game_id gr = game_id \<and> gr_spectator_url gr = spectator_url
         | Finish (Inl e) \<Rightarrow> True"
  using assms
  by (auto simp add: run_game_turn_def call_on_step_def time_sleep_def Let_def
        outcomes_reported_def
      split: prod.splits sum.splits exn.splits if_splits option.splits flow.splits
      dest!: mk_GameResult_Inr)

lemma run_game_loop_outcomes:
  "run_game_loop fuel elapse client agent_fn max_invalid_actions on_step
     game_id spectator_url observation consecutive_invalid w tr = Some (Inr gr, w', tr') \<Longrightarrow>
   gr_game_id gr = game_id \<and> gr_spectator_url gr = spectator_url \<and>
   gr_outcome gr \<noteq> InProgressOutcome \<and>
   (\<exists>k. outcomes_reported tr' =
          outcomes_reported tr @ replicate k InProgressOutcome @ [gr_outcome gr])"
proof (induction fuel arbitrary: observation consecutive_invalid w tr)
  case 0
  then show ?case by simp
next
  case (Suc fuel)
  obtain fl w1 tr1 where turn:
    "run_game_turn elapse client agent_fn max_invalid_actions on_step
       game_id spectator_url observation consecutive_invalid w tr = (fl, w1, tr1)"
    by (metis prod_cases3)
  note facts = run_game_turn_outcomes [OF turn]
  show ?case
  proof (cases fl)
    case (Continue obs' ci')
    with Suc.prems turn have rest:
      "run_game_loop fuel elapse client agent_fn max_invalid_actions on_step
         game_id spectator_url obs' ci' w1 tr1 = Some (Inr gr, w', tr')"
      by simp
    from Suc.IH [OF rest] obtain k where k:
      "gr_game_id gr = game_id" "gr_spectator_url gr = spectator_url"
      "gr_outcome gr \<noteq> InProgressOutcome"
      "outcomes_reported tr' =
         outcomes_reported tr1 @ replicate k InProgressOutcome @ [gr_outcome gr]"
      by blast
    from facts Continue consider
      "outcomes_reported tr1 = outcomes_reported tr"
      | "outcomes_reported tr1 = outcomes_reported tr @ [InProgressOutcome]"
      by auto
    then have "\<exists>j. outcomes_reported tr' =
                 outcomes_reported tr @ replicate j InProgressOutcome @ [gr_outcome gr]"
    proof cases
      case 1
      with k(4) show ?thesis by auto
    next
      case 2
      with k(4) have "outcomes_reported tr' =
        outcomes_reported tr @ replicate (Suc k) InProgressOutcome @ [gr_outcome gr]"
        by simp
      then show ?thesis by blast
    qed
    with k show ?thesis by simp
  next
    case (Finish r)
    with Suc.prems turn have "r = Inr gr" "w1 = w'" "tr1 = tr'" by simp_all
    with facts Finish have
      "outcomes_reported tr' = outcomes_reported tr @ [gr_outcome gr]"
      "gr_outcome gr \<noteq> InProgressOutcome"
      "gr_game_id gr = game_id" "gr_spectator_url gr = spectator_url"
      by simp_all
    then have "outcomes_reported tr' =
        outcomes_reported tr @ replicate 0 InProgressOutcome @ [gr_outcome gr]"
      by simp
    with \<open>gr_outcome gr \<noteq> InProgressOutcome\<close> \<open>gr_game_id gr = game_id\<close>
      \<open>gr_spectator_url gr = spectator_url\<close>
    show ?thesis by blast
  qed
qed

text \<open>
  C1. As stated, the claim fails when a step callback is supplied and raises: the test
  \<^verbatim>\<open>test_on_step_exception_propagates\<close> is such a run. The submit returns an
  in-progress outcome, the callback raises, and the loop ends there with the
  callback's exception instead of going on.
\<close>

theorem run_game_callback_ends_loop:
  "games_action (mock_client no_game) ''game-1'' (Wait None) [Inr in_progress_response] =
     (Inr in_progress_response, []) \<and>
   ar_outcome in_progress_response = InProgressOutcome \<and>
   run_game (Suc (Suc 0)) no_elapse (mock_client no_game) agent_always_wait None None 5
       (Some bad_callback) [Inr in_progress_response] =
     Some (Inl (RuntimeError ''Callback failed'' None), [],
           [CallCreate None, CallAgent example_observation,
            CallAction ''game-1'' (Wait None) (Inr in_progress_response),
            CallOnStep example_observation (Wait None)])"
  by (simp add: run_game_def run_game_turn_def call_on_step_def mock_client_def
      agent_always_wait_def bad_callback_def in_progress_response_def)

text \<open>
  C1, amended. In a pass of the loop whose submit returns, and whose step callback (if
  one is supplied) returns too, the loop goes on exactly when the outcome returned is in
  progress, from the observation returned and with the invalid-action count at zero;
  otherwise \<^verbatim>\<open>run_game\<close> returns the game identifier, the spectator URL and that
  outcome. Over a whole run: a result that \<^verbatim>\<open>run_game\<close>'s loop returns carries the
  loop's game identifier and spectator URL and an outcome that is not in progress,
  every outcome the service reported before it during the run was in progress, and it is
  the last outcome the service reported.
\<close>

theorem run_game_loop_ends_on_final_outcome:
  "(agent_fn observation w = (Inr action, w1) \<and>
    games_action client game_id action w1 = (Inr result, w2) \<and>
    call_on_step on_step observation action w2
      (tr @ [CallAgent observation, CallAction game_id action (Inr result)]) =
      (Inr (), w3, tr3)
    \<longrightarrow>
    run_game_loop (Suc fuel) elapse client agent_fn max_invalid_actions on_step
      game_id spectator_url observation consecutive_invalid w tr =
    (if ar_outcome result = InProgressOutcome
     then run_game_loop fuel elapse client agent_fn max_invalid_actions on_step
            game_id spectator_url (ar_observation result) 0 w3 tr3
     else Some (Inr \<lparr>gr_game_id = game_id, gr_spectator_url = spectator_url,
                      gr_outcome = ar_outcome result\<rparr>, w3, tr3)))
   \<and>
   (run_game_loop fuel elapse client agent_fn max_invalid_actions on_step
      game_id spectator_url observation consecutive_invalid w tr = Some (Inr gr, w', tr')
    \<longrightarrow>
    gr_game_id gr = game_id \<and> gr_spectator_url gr = spectator_url \<and>
    gr_outcome gr \<noteq> InProgressOutcome \<and>
    (\<exists>k. outcomes_reported tr' =
           outcomes_reported tr @ replicate k InProgressOutcome @ [gr_outcome gr]))"
proof (intro conjI impI)
  assume "agent_fn observation w = (Inr action, w1) \<and>
    games_action client game_id action w1 = (Inr result, w2) \<and>
    call_on_step on_step observation action w2
      (tr @ [CallAgent observation, CallAction game_id action (Inr result)]) =
      (Inr (), w3, tr3)"
  then show "run_game_loop (Suc fuel) elapse client agent_fn max_invalid_actions on_step
      game_id spectator_url observation consecutive_invalid w tr =
    (if ar_outcome result = InProgressOutcome
     then run_game_loop fuel elapse client agent_fn max_invalid_actions on_step
            game_id spectator_url (ar_observation result) 0 w3 tr3
     else Some (Inr \<lparr>gr_game_id = game_id, gr_spectator_url = spectator_url,
                      gr_outcome = ar_outcome result\<rparr>, w3, tr3))"
    by (simp add: run_game_turn_def mk_GameResult_final)
next
  assume run: "run_game_loop fuel elapse client agent_fn max_invalid_actions on_step
      game_id spectator_url observation consecutive_invalid w tr = Some (Inr gr, w', tr')"
  from run_game_loop_outcomes [OF run]
  show "gr_game_id gr = game_id" "gr_spectator_url gr = spectator_url"
    "gr_outcome gr \<noteq> InProgressOutcome"
    "\<exists>k. outcomes_reported tr' =
           outcomes_reported tr @ replicate k InProgressOutcome @ [gr_outcome gr]"
    by blast+
qed

theorem run_game_loop_ends_on_final_outcome_witness:
  "agent_always_wait example_observation [Inr in_progress_response, Inr victory_response] =
     (Inr (Wait None), [Inr in_progress_response, Inr victory_response]) \<and>
   games_action (mock_client no_game) ''game-1'' (Wait None)
       [Inr in_progress_response, Inr victory_response] =
     (Inr in_progress_response, [Inr victory_response]) \<and>
   call_on_step (Some good_callback) example_observation (Wait None) [Inr victory_response]
       ([CallCreate None] @
        [CallAgent example_observation,
         CallAction ''game-1'' (Wait None) (Inr in_progress_response)]) =
     (Inr (), [Inr victory_response],
      [CallCreate None, CallAgent example_observation,
       CallAction ''game-1'' (Wait None) (Inr in_progress_response),
       CallOnStep example_observation (Wait None)]) \<and>
   run_game_loop (Suc (Suc 0)) no_elapse (mock_client no_game) agent_always_wait 5
       (Some good_callback) ''game-1'' ''url'' example_observation 0
       [Inr in_progress_response, Inr victory_response] [CallCreate None] =
     run_game_loop (Suc 0) no_elapse (mock_client no_game) agent_always_wait 5
       (Some good_callback) ''game-1'' ''url'' next_observation 0
       [Inr victory_response]
       [CallCreate None, CallAgent example_observation,
        CallAction ''game-1'' (Wait None) (Inr in_progress_response),
        CallOnStep example_observation (Wait None)] \<and>
   run_game_loop (Suc (Suc 0)) no_elapse (mock_client no_game) agent_always_wait 5
       (Some good_callback) ''game-1'' ''url'' example_observation 0
       [Inr in_progress_response, Inr victory_response] [CallCreate None] =
     Some (Inr \<lparr>gr_game_id = ''game-1'', gr_spectator_url = ''url'',
                 gr_outcome = CompletedOutcome victory 5 100\<rparr>,
           [],
           [CallCreate None, CallAgent example_observation,
            CallAction ''game-1'' (Wait None) (Inr in_progress_response),
            CallOnStep example_observation (Wait None),
            CallAgent next_observation,
            CallAction ''game-1'' (Wait None) (Inr victory_response),
            CallOnStep next_observation (Wait None)]) \<and>
   (\<exists>k. outcomes_reported
          [CallCreate None, CallAgent example_observation,
           CallAction ''game-1'' (Wait None) (Inr in_progress_response),
           CallOnStep example_observation (Wait None),
           CallAgent next_observation,
           CallAction ''game-1'' (Wait None) (Inr victory_response),
           CallOnStep next_observation (Wait None)] =
        outcomes_reported [CallCreate None] @ replicate k InProgressOutcome @
        [CompletedOutcome victory 5 100])"
proof -
  let ?w = "[Inr in_progress_response, Inr victory_response]"
  let ?tr1 = "[CallCreate None, CallAgent example_observation,
       CallAction ''game-1'' (Wait None) (Inr in_progress_response),
       CallOnStep example_observation (Wait None)]"
  let ?tr2 = "?tr1 @ [CallAgent next_observation,
       CallAction ''game-1'' (Wait None) (Inr victory_response),
       CallOnStep next_observation (Wait None)]"
  let ?gr = "\<lparr>gr_game_id = ''game-1'', gr_spectator_url = ''url'',
              gr_outcome = CompletedOutcome victory 5 100\<rparr>"
  have agent: "agent_always_wait example_observation ?w = (Inr (Wait None), ?w)"
    by (simp add: agent_always_wait_def)
  have submit: "games_action (mock_client no_game) ''game-1'' (Wait None) ?w =
      (Inr in_progress_response, [Inr victory_response])"
    by (simp add: mock_client_def)
  have callback: "call_on_step (Some good_callback) example_observation (Wait None)
      [Inr victory_response]
      ([CallCreate None] @
       [CallAgent example_observation,
        CallAction ''game-1'' (Wait None) (Inr in_progress_response)]) =
      (Inr (), [Inr victory_response], ?tr1)"
    by (simp add: call_on_step_def good_callback_def)
  have run: "run_game_loop (Suc (Suc 0)) no_elapse (mock_client no_game) agent_always_wait 5
      (Some good_callback) ''game-1'' ''url'' example_observation 0 ?w [CallCreate None] =
      Some (Inr ?gr, [], ?tr2)"
    by (simp add: run_game_turn_def call_on_step_def good_callback_def mock_client_def
        agent_always_wait_def in_progress_response_def victory_response_def
        mk_GameResult_def)
  note inst = run_game_loop_ends_on_final_outcome
    [where agent_fn = agent_always_wait and observation = example_observation and w = "?w"
       and action = "Wait None" and ?w1.0 = "?w" and client = "mock_client no_game"
       and game_id = "''game-1''" and result = in_progress_response
       and ?w2.0 = "[Inr victory_response]" and on_step = "Some good_callback"
       and tr = "[CallCreate None]" and ?w3.0 = "[Inr victory_response]" and ?tr3.0 = "?tr1"
       and fuel = "Suc 0" and elapse = no_elapse and max_invalid_actions = 5
       and spectator_url = "''url''" and consecutive_invalid = 0]
  from inst [THEN conjunct1, THEN mp, OF conjI [OF agent conjI [OF submit callback]]]
  have step: "run_game_loop (Suc (Suc 0)) no_elapse (mock_client no_game) agent_always_wait 5
      (Some good_callback) ''game-1'' ''url'' example_observation 0 ?w [CallCreate None] =
      run_game_loop (Suc 0) no_elapse (mock_client no_game) agent_always_wait 5
      (Some good_callback) ''game-1'' ''url'' next_observation 0 [Inr victory_response] ?tr1"
    by (simp add: in_progress_response_def del: run_game_loop.simps)
  from run_game_loop_ends_on_final_outcome [THEN conjunct2, rule_format, OF run]
  have "\<exists>k. outcomes_reported ?tr2 =
      outcomes_reported [CallCreate None] @ replicate k InProgressOutcome @
      [CompletedOutcome victory 5 100]"
    by simp
  with agent submit callback step run show ?thesis by simp
qed

section \<open>Resuming a game\<close>

text \<open>
  C2. \<^verbatim>\<open>run_game\<close> called with a game identifier, when \<^verbatim>\<open>client.games.get\<close> returns
  a game state: if the state's outcome is not in progress, \<^verbatim>\<open>run_game\<close> returns the
  game identifier, an empty spectator URL and that outcome, whatever the fuel, and the
  only call it has made is the fetch (no decision, no submit); if the outcome is in
  progress, the run is the loop started from the fetched observation with an empty
  spectator URL.
\<close>

theorem run_game_resume:
  assumes "games_get client gid w = (Inr state, w1)"
  shows "run_game fuel elapse client agent_fn model_id (Some gid) max_invalid_actions on_step w =
         (if gs_outcome state = InProgressOutcome
          then run_game_loop fuel elapse client agent_fn max_invalid_actions on_step
                 gid [] (gs_observation state) 0 w1 [CallGet gid]
          else Some (Inr \<lparr>gr_game_id = gid, gr_spectator_url = [],
                           gr_outcome = gs_outcome state\<rparr>, w1, [CallGet gid]))"
  using assms by (simp add: run_game_def mk_GameResult_final)

theorem run_game_resume_witness:
  "games_get (mock_client (Inr \<lparr>gs_observation = example_observation,
                                 gs_outcome = CompletedOutcome victory 5 100\<rparr>))
     ''done-game'' [] =
     (Inr \<lparr>gs_observation = example_observation,
           gs_outcome = CompletedOutcome victory 5 100\<rparr>, []) \<and>
   run_game 0 no_elapse
     (mock_client (Inr \<lparr>gs_observation = example_observation,
                         gs_outcome = CompletedOutcome victory 5 100\<rparr>))
     agent_always_wait None (Some ''done-game'') 5 None [] =
     Some (Inr \<lparr>gr_game_id = ''done-game'', gr_spectator_url = [],
                 gr_outcome = CompletedOutcome victory 5 100\<rparr>, [],
           [CallGet ''done-game'']) \<and>
   games_get (mock_client (Inr \<lparr>gs_observation = example_observation,
                                 gs_outcome = InProgressOutcome\<rparr>))
     ''existing-game'' [Inr victory_response] =
     (Inr \<lparr>gs_observation = example_observation, gs_outcome = InProgressOutcome\<rparr>,
      [Inr victory_response]) \<and>
   run_game (Suc 0) no_elapse
     (mock_client (Inr \<lparr>gs_observation = example_observation,
                         gs_outcome = InProgressOutcome\<rparr>))
     agent_always_wait None (Some ''existing-game'') 5 None [Inr victory_response] =
     run_game_loop (Suc 0) no_elapse
       (mock_client (Inr \<lparr>gs_observation = example_observation,
                           gs_outcome = InProgressOutcome\<rparr>))
       agent_always_wait 5 None ''existing-game'' [] example_observation 0
       [Inr victory_response] [CallGet ''existing-game'']"
proof -
  let ?done = "\<lparr>gs_observation = example_observation,
                gs_outcome = CompletedOutcome victory 5 100\<rparr>"
  let ?open = "\<lparr>gs_observation = example_observation, gs_outcome = InProgressOutcome\<rparr>"
  have get1: "games_get (mock_client (Inr ?done)) ''done-game'' [] = (Inr ?done, [])"
    by (simp add: mock_client_def)
  have get2: "games_get (mock_client (Inr ?open)) ''existing-game'' [Inr victory_response] =
      (Inr ?open, [Inr victory_response])"
    by (simp add: mock_client_def)
  from run_game_resume [OF get1, of 0 no_elapse agent_always_wait None 5 None]
    run_game_resume [OF get2, of "Suc 0" no_elapse agent_always_wait None 5 None]
    get1 get2
  show ?thesis by simp
qed

section \<open>Invalid actions\<close>

lemma invalid_streak_Suc:
  "invalid_streak (Suc n) client agent_fn game_id observation w \<longleftrightarrow>
   (\<exists>action w1 sc msg code w2.
      agent_fn observation w = (Inr action, w1) \<and>
      games_action client game_id action w1 = (Inl (InvalidActionError sc msg code), w2) \<and>
      invalid_streak n client agent_fn game_id observation w2)"
proof (cases "agent_fn observation w")
  case (Pair r w1)
  show ?thesis
  proof (cases r)
    case (Inl e)
    with Pair show ?thesis by simp
  next
    case (Inr action)
    show ?thesis
    proof (cases "games_action client game_id action w1")
      case submit: (Pair r2 w2)
      show ?thesis
      proof (cases r2)
        case (Inl e)
        with Pair Inr submit show ?thesis by (cases e) simp_all
      next
        case Inr2: (Inr res)
        with Pair Inr submit show ?thesis by simp
      qed
    qed
  qed
qed

text \<open>
  From a count of \<open>consecutive_invalid\<close>, a streak of \<open>n\<close> rejections that brings the
  count to the threshold ends the run in the last rejection, after \<open>n\<close> calls of the
  decision function, each with the same observation.
\<close>

lemma run_game_loop_invalid_streak:
  assumes "invalid_streak n client agent_fn game_id observation w"
      and "0 < n" and "max_invalid_actions = consecutive_invalid + int n" and "n \<le> fuel"
  shows "\<exists>sc msg code w' tr'.
           run_game_loop fuel elapse client agent_fn max_invalid_actions on_step
             game_id spectator_url observation consecutive_invalid w tr =
           Some (Inl (InvalidActionError sc msg code), w', tr') \<and>
           agent_calls tr' = agent_calls tr @ replicate n observation"
  using assms
proof (induction n arbitrary: consecutive_invalid w tr fuel)
  case 0
  then show ?case by simp
next
  case (Suc n)
  from Suc.prems(4) obtain fuel' where fuel: "fuel = Suc fuel'" "n \<le> fuel'"
    by (cases fuel) auto
  from Suc.prems(1) [unfolded invalid_streak_Suc] obtain action w1 sc msg code w2 where
    agent: "agent_fn observation w = (Inr action, w1)" and
    submit: "games_action client game_id action w1 = (Inl (InvalidActionError sc msg code), w2)" and
    rest: "invalid_streak n client agent_fn game_id observation w2"
    by blast
  let ?tr2 = "tr @ [CallAgent observation,
                    CallAction game_id action (Inl (InvalidActionError sc msg code))]"
  show ?case
  proof (cases "n = 0")
    case True
    with Suc.prems(3) have "max_invalid_actions \<le> consecutive_invalid + 1" by simp
    with agent submit fuel have
      "run_game_loop fuel elapse client agent_fn max_invalid_actions on_step
         game_id spectator_url observation consecutive_invalid w tr =
       Some (Inl (InvalidActionError sc msg code), w2, ?tr2)"
      by (simp add: run_game_turn_def)
    moreover from True have
      "agent_calls ?tr2 = agent_calls tr @ replicate (Suc n) observation"
      by (simp add: agent_calls_def)
    ultimately show ?thesis by blast
  next
    case False
    with Suc.prems(3) have more: "\<not> max_invalid_actions \<le> consecutive_invalid + 1"
      and next_max: "max_invalid_actions = (consecutive_invalid + 1) + int n"
      by simp_all
    from agent submit fuel more have step:
      "run_game_loop fuel elapse client agent_fn max_invalid_actions on_step
         game_id spectator_url observation consecutive_invalid w tr =
       run_game_loop fuel' elapse client agent_fn max_invalid_actions on_step
         game_id spectator_url observation (consecutive_invalid + 1) w2 ?tr2"
      by (simp add: run_game_turn_def)
    from False have "0 < n" by simp
    from Suc.IH [OF rest this next_max fuel(2), of ?tr2]
    obtain sc' msg' code' w' tr' where
      "run_game_loop fuel' elapse client agent_fn max_invalid_actions on_step
         game_id spectator_url observation (consecutive_invalid + 1) w2 ?tr2 =
       Some (Inl (InvalidActionError sc' msg' code'), w', tr')"
      "agent_calls tr' = agent_calls ?tr2 @ replicate n observation"
      by blast
    with step have
      "run_game_loop fuel elapse client agent_fn max_invalid_actions on_step
         game_id spectator_url observation consecutive_invalid w tr =
       Some (Inl (InvalidActionError sc' msg' code'), w', tr')"
      "agent_calls tr' = agent_calls tr @ replicate (Suc n) observation"
      by (simp_all add: agent_calls_def replicate_append_same)
    then show ?thesis by blast
  qed
qed

text \<open>
  C3. In a pass whose submit is rejected with \<^verbatim>\<open>InvalidActionError\<close>, the count of
  consecutive invalid actions goes up by one; if it has then reached
  \<^verbatim>\<open>max_invalid_actions\<close>, \<^verbatim>\<open>run_game\<close> raises that same error, and otherwise the loop
  goes on with the same observation and the new count. A submit that returns (with an
  in-progress outcome, the step callback returning) sets the count back to zero. So, with
  \<^verbatim>\<open>max_invalid_actions = n\<close> for an \<open>n\<close> of at least 1, \<open>n\<close> rejections in a row from
  the start of the loop end the run in an \<^verbatim>\<open>InvalidActionError\<close>, after exactly \<open>n\<close>
  calls of the decision function, all with the same observation. The default threshold
  is 5.
\<close>

theorem run_game_invalid_action_policy:
  "(agent_fn observation w = (Inr action, w1) \<and>
    games_action client game_id action w1 = (Inl (InvalidActionError sc msg code), w2)
    \<longrightarrow>
    run_game_loop (Suc fuel) elapse client agent_fn max_invalid_actions on_step
      game_id spectator_url observation consecutive_invalid w tr =
    (if consecutive_invalid + 1 \<ge> max_invalid_actions
     then Some (Inl (InvalidActionError sc msg code), w2,
                tr @ [CallAgent observation,
                      CallAction game_id action (Inl (InvalidActionError sc msg code))])
     else run_game_loop fuel elapse client agent_fn max_invalid_actions on_step
            game_id spectator_url observation (consecutive_invalid + 1) w2
            (tr @ [CallAgent observation,
                   CallAction game_id action (Inl (InvalidActionError sc msg code))])))
   \<and>
   (agent_fn observation w = (Inr action, w1) \<and>
    games_action client game_id action w1 = (Inr result, w2) \<and>
    ar_outcome result = InProgressOutcome \<and>
    call_on_step on_step observation action w2
      (tr @ [CallAgent observation, CallAction game_id action (Inr result)]) =
      (Inr (), w3, tr3)
    \<longrightarrow>
    run_game_loop (Suc fuel) elapse client agent_fn max_invalid_actions on_step
      game_id spectator_url observation consecutive_invalid w tr =
    run_game_loop fuel elapse client agent_fn max_invalid_actions on_step
      game_id spectator_url (ar_observation result) 0 w3 tr3)
   \<and>
   (invalid_streak n client agent_fn game_id observation w \<and> 0 < n \<and>
    max_invalid_actions = int n \<and> n \<le> fuel
    \<longrightarrow>
    (\<exists>sc msg code w' tr'.
       run_game_loop fuel elapse client agent_fn max_invalid_actions on_step
         game_id spectator_url observation 0 w tr =
       Some (Inl (InvalidActionError sc msg code), w', tr') \<and>
       agent_calls tr' = agent_calls tr @ replicate n observation))
   \<and> default_max_invalid_actions = 5"
proof (intro conjI impI)
  assume "agent_fn observation w = (Inr action, w1) \<and>
    games_action client game_id action w1 = (Inl (InvalidActionError sc msg code), w2)"
  then show "run_game_loop (Suc fuel) elapse client agent_fn max_invalid_actions on_step
      game_id spectator_url observation consecutive_invalid w tr =
    (if consecutive_invalid + 1 \<ge> max_invalid_actions
     then Some (Inl (InvalidActionError sc msg code), w2,
                tr @ [CallAgent observation,
                      CallAction game_id action (Inl (InvalidActionError sc msg code))])
     else run_game_loop fuel elapse client agent_fn max_invalid_actions on_step
            game_id spectator_url observation (consecutive_invalid + 1) w2
            (tr @ [CallAgent observation,
                   CallAction game_id action (Inl (InvalidActionError sc msg code))]))"
    by (simp add: run_game_turn_def)
next
  assume "agent_fn observation w = (Inr action, w1) \<and>
    games_action client game_id action w1 = (Inr result, w2) \<and>
    ar_outcome result = InProgressOutcome \<and>
    call_on_step on_step observation action w2
      (tr @ [CallAgent observation, CallAction game_id action (Inr result)]) =
      (Inr (), w3, tr3)"
  then show "run_game_loop (Suc fuel) elapse client agent_fn max_invalid_actions on_step
      game_id spectator_url observation consecutive_invalid w tr =
    run_game_loop fuel elapse client agent_fn max_invalid_actions on_step
      game_id spectator_url (ar_observation result) 0 w3 tr3"
    by (simp add: run_game_turn_def)
next
  assume "invalid_streak n client agent_fn game_id observation w \<and> 0 < n \<and>
    max_invalid_actions = int n \<and> n \<le> fuel"
  then have "invalid_streak n client agent_fn game_id observation w" "0 < n"
    "max_invalid_actions = 0 + int n" "n \<le> fuel"
    by simp_all
  from run_game_loop_invalid_streak [OF this]
  show "\<exists>sc msg code w' tr'.
       run_game_loop fuel elapse client agent_fn max_invalid_actions on_step
         game_id spectator_url observation 0 w tr =
       Some (Inl (InvalidActionError sc msg code), w', tr') \<and>
       agent_calls tr' = agent_calls tr @ replicate n observation" .
next
  show "default_max_invalid_actions = 5"
    by (simp add: default_max_invalid_actions_def)
qed

theorem run_game_invalid_action_policy_witness:
  "agent_always_wait example_observation [Inl invalid_move, Inl invalid_move, Inl invalid_move] =
     (Inr (Wait None), [Inl invalid_move, Inl invalid_move, Inl invalid_move]) \<and>
   games_action (mock_client no_game) ''game-1'' (Wait None)
       [Inl invalid_move, Inl invalid_move, Inl invalid_move] =
     (Inl (InvalidActionError 422 (JStr ''Invalid'') (JStr ''INVALID_ACTION'')),
      [Inl invalid_move, Inl invalid_move]) \<and>
   run_game_loop (Suc (Suc (Suc 0))) no_elapse (mock_client no_game) agent_always_wait 3 None
       ''game-1'' ''url'' example_observation 0
       [Inl invalid_move, Inl invalid_move, Inl invalid_move] [] =
     run_game_loop (Suc (Suc 0)) no_elapse (mock_client no_game) agent_always_wait 3 None
       ''game-1'' ''url'' example_observation 1 [Inl invalid_move, Inl invalid_move]
       [CallAgent example_observation, CallAction ''game-1'' (Wait None) (Inl invalid_move)] \<and>
   agent_always_wait example_observation [Inr in_progress_response] =
     (Inr (Wait None), [Inr in_progress_response]) \<and>
   games_action (mock_client no_game) ''game-1'' (Wait None) [Inr in_progress_response] =
     (Inr in_progress_response, []) \<and>
   ar_outcome in_progress_response = InProgressOutcome \<and>
   call_on_step None example_observation (Wait None) []
       ([] @ [CallAgent example_observation,
              CallAction ''game-1'' (Wait None) (Inr in_progress_response)]) =
     (Inr (), [],
      [CallAgent example_observation,
       CallAction ''game-1'' (Wait None) (Inr in_progress_response)]) \<and>
   run_game_loop (Suc (Suc 0)) no_elapse (mock_client no_game) agent_always_wait 3 None
       ''game-1'' ''url'' example_observation 2 [Inr in_progress_response] [] =
     run_game_loop (Suc 0) no_elapse (mock_client no_game) agent_always_wait 3 None
       ''game-1'' ''url'' next_observation 0 []
       [CallAgent example_observation,
        CallAction ''game-1'' (Wait None) (Inr in_progress_response)] \<and>
   invalid_streak (Suc (Suc (Suc 0))) (mock_client no_game) agent_always_wait ''game-1''
       example_observation [Inl invalid_move, Inl invalid_move, Inl invalid_move] \<and>
   (\<exists>sc msg code w' tr'.
      run_game_loop (Suc (Suc (Suc 0))) no_elapse (mock_client no_game) agent_always_wait 3 None
        ''game-1'' ''url'' example_observation 0
        [Inl invalid_move, Inl invalid_move, Inl invalid_move] [] =
      Some (Inl (InvalidActionError sc msg code), w', tr') \<and>
      agent_calls tr' = agent_calls [] @ replicate (Suc (Suc (Suc 0))) example_observation)"
proof -
  let ?w = "[Inl invalid_move, Inl invalid_move, Inl invalid_move]"
  let ?e = "InvalidActionError 422 (JStr ''Invalid'') (JStr ''INVALID_ACTION'')"
  have agent: "agent_always_wait example_observation ?w = (Inr (Wait None), ?w)"
    by (simp add: agent_always_wait_def)
  have submit: "games_action (mock_client no_game) ''game-1'' (Wait None) ?w =
      (Inl ?e, [Inl invalid_move, Inl invalid_move])"
    by (simp add: mock_client_def invalid_move_def)
  have agent2: "agent_always_wait example_observation [Inr in_progress_response] =
      (Inr (Wait None), [Inr in_progress_response])"
    by (simp add: agent_always_wait_def)
  have submit2: "games_action (mock_client no_game) ''game-1'' (Wait None)
      [Inr in_progress_response] = (Inr in_progress_response, [])"
    by (simp add: mock_client_def)
  have open_game: "ar_outcome in_progress_response = InProgressOutcome"
    by (simp add: in_progress_response_def)
  have callback: "call_on_step None example_observation (Wait None) []
      ([] @ [CallAgent example_observation,
             CallAction ''game-1'' (Wait None) (Inr in_progress_response)]) =
      (Inr (), [],
       [CallAgent example_observation,
        CallAction ''game-1'' (Wait None) (Inr in_progress_response)])"
    by (simp add: call_on_step_def)
  have streak: "invalid_streak (Suc (Suc (Suc 0))) (mock_client no_game) agent_always_wait
      ''game-1'' example_observation ?w"
    by (simp add: agent_always_wait_def mock_client_def invalid_move_def)
  note first = run_game_invalid_action_policy
    [where agent_fn = agent_always_wait and observation = example_observation and w = "?w"
       and action = "Wait None" and ?w1.0 = "?w" and client = "mock_client no_game"
       and game_id = "''game-1''" and sc = 422 and msg = "JStr ''Invalid''"
       and code = "JStr ''INVALID_ACTION''"
       and ?w2.0 = "[Inl invalid_move, Inl invalid_move]" and on_step = None
       and tr = "[]" and fuel = "Suc (Suc 0)" and elapse = no_elapse
       and max_invalid_actions = 3 and spectator_url = "''url''"
       and consecutive_invalid = 0, THEN conjunct1]
  from first [THEN mp, OF conjI [OF agent submit]]
  have retry: "run_game_loop (Suc (Suc (Suc 0))) no_elapse (mock_client no_game)
      agent_always_wait 3 None ''game-1'' ''url'' example_observation 0 ?w [] =
      run_game_loop (Suc (Suc 0)) no_elapse (mock_client no_game) agent_always_wait 3 None
        ''game-1'' ''url'' example_observation 1 [Inl invalid_move, Inl invalid_move]
        [CallAgent example_observation, CallAction ''game-1'' (Wait None) (Inl invalid_move)]"
    by (simp add: invalid_move_def del: run_game_loop.simps)
  note second = run_game_invalid_action_policy
    [where agent_fn = agent_always_wait and observation = example_observation
       and w = "[Inr in_progress_response]" and action = "Wait None"
       and ?w1.0 = "[Inr in_progress_response]" and client = "mock_client no_game"
       and game_id = "''game-1''" and result = in_progress_response
       and ?w2.0 = "[]" and on_step = None and tr = "[]"
       and ?w3.0 = "[]"
       and ?tr3.0 = "[CallAgent example_observation,
                      CallAction ''game-1'' (Wait None) (Inr in_progress_response)]"
       and fuel = "Suc 0" and elapse = no_elapse
       and max_invalid_actions = 3 and spectator_url = "''url''"
       and consecutive_invalid = 2, THEN conjunct2, THEN conjunct1]
  from second [THEN mp, OF conjI [OF agent2 conjI [OF submit2 conjI [OF open_game callback]]]]
  have reset: "run_game_loop (Suc (Suc 0)) no_elapse (mock_client no_game) agent_always_wait 3
      None ''game-1'' ''url'' example_observation 2 [Inr in_progress_response] [] =
      run_game_loop (Suc 0) no_elapse (mock_client no_game) agent_always_wait 3 None
        ''game-1'' ''url'' next_observation 0 []
        [CallAgent example_observation,
         CallAction ''game-1'' (Wait None) (Inr in_progress_response)]"
    by (simp add: in_progress_response_def del: run_game_loop.simps)
  note third = run_game_invalid_action_policy
    [where agent_fn = agent_always_wait and observation = example_observation and w = "?w"
       and client = "mock_client no_game" and game_id = "''game-1''"
       and n = "Suc (Suc (Suc 0))" and on_step = None and tr = "[]"
       and fuel = "Suc (Suc (Suc 0))" and elapse = no_elapse
       and max_invalid_actions = 3 and spectator_url = "''url''",
       THEN conjunct2, THEN conjunct2, THEN conjunct1]
  from third [THEN mp, OF conjI [OF streak]]
  have raised: "\<exists>sc msg code w' tr'.
      run_game_loop (Suc (Suc (Suc 0))) no_elapse (mock_client no_game) agent_always_wait 3 None
        ''game-1'' ''url'' example_observation 0 ?w [] =
      Some (Inl (InvalidActionError sc msg code), w', tr') \<and>
      agent_calls tr' = agent_calls [] @ replicate (Suc (Suc (Suc 0))) example_observation"
    by (simp del: run_game_loop.simps invalid_streak.simps replicate.simps)
  from agent submit retry agent2 submit2 open_game callback reset streak raised
  show ?thesis by blast
qed

section \<open>Rate limits\<close>

text \<open>
  A pass whose submit is rejected with a \<^verbatim>\<open>RateLimitError\<close> that carries a
  \<^verbatim>\<open>retry_after\<close> of zero or more: \<^verbatim>\<open>run_game\<close> sleeps that long and the loop goes on
  with the observation and the invalid-action count it had.
\<close>

lemma run_game_loop_rate_limited:
  assumes "agent_fn observation w = (Inr action, w1)"
      and "games_action client game_id action w1 = (Inl (RateLimitError sc msg retry_after), w2)"
      and "0 \<le> retry_after"
  shows "run_game_loop (Suc fuel) elapse client agent_fn max_invalid_actions on_step
           game_id spectator_url observation consecutive_invalid w tr =
         run_game_loop fuel elapse client agent_fn max_invalid_actions on_step
           game_id spectator_url observation consecutive_invalid (elapse retry_after w2)
           (tr @ [CallAgent observation,
                  CallAction game_id action (Inl (RateLimitError sc msg retry_after)),
                  CallSleep retry_after])"
  using assms by (simp add: run_game_turn_def time_sleep_def)

text \<open>
  C4. The claim speaks of every rate-limit rejection, and \<^verbatim>\<open>run_game\<close> breaks it for a
  \<^verbatim>\<open>retry_after\<close> below zero: \<^verbatim>\<open>time.sleep\<close> raises \<^verbatim>\<open>ValueError\<close> on a negative
  length, and the error ends the loop. The header \<^verbatim>\<open>retry-after: -1\<close> of a 429 response
  gives such a \<^verbatim>\<open>RateLimitError\<close>; the run below, which the service would have let
  win on the retry, ends in the \<^verbatim>\<open>ValueError\<close> after one submit.
\<close>

theorem run_game_negative_retry_after:
  "map_error_response wire_adapter 429 [''error'' \<mapsto> JStr ''Rate limited'']
       [''retry-after'' \<mapsto> ''-1''] =
     RateLimitError 429 (JStr ''Rate limited'') (- 1) \<and>
   run_game (Suc (Suc 0)) no_elapse (mock_client no_game) agent_always_wait None None 5 None
       [Inl (RateLimitError 429 (JStr ''Rate limited'') (- 1)), Inr victory_response] =
     Some (Inl (ValueError ''sleep length must be non-negative''),
           [Inr victory_response],
           [CallCreate None, CallAgent example_observation,
            CallAction ''game-1'' (Wait None)
              (Inl (RateLimitError 429 (JStr ''Rate limited'') (- 1))),
            CallSleep (- 1)])"
  by (simp add: map_error_response_def dict_get_def py_int_def py_strip_def py_isspace_def
      py_isdigit_def digit_value_def run_game_def run_game_turn_def time_sleep_def
      mock_client_def agent_always_wait_def)

section \<open>Game over between turns\<close>

text \<open>
  C5. As stated, the claim fails for a \<^verbatim>\<open>GameOverError\<close> that carries an in-progress
  outcome. \<^verbatim>\<open>map_error_response\<close> builds one from a 409 response whose outcome payload
  is \<^verbatim>\<open>{"status": "in_progress"}\<close>; \<^verbatim>\<open>GameResult\<close> refuses that outcome, and
  \<^verbatim>\<open>run_game\<close> raises pydantic's validation error instead of returning a result.
\<close>

theorem run_game_game_over_in_progress:
  "map_error_response wire_adapter 409
       [''error'' \<mapsto> JStr ''Conflict'',
        ''outcome'' \<mapsto> JObj [(''status'', JStr ''in_progress'')]] Map.empty =
     GameOverError 409 (JStr ''Conflict'') InProgressOutcome \<and>
   run_game (Suc 0) no_elapse (mock_client no_game) agent_always_wait None None 5 None
       [Inl (GameOverError 409 (JStr ''Conflict'') InProgressOutcome)] =
     Some (Inl (PydanticValidationError ''model_type''), [],
           [CallCreate None, CallAgent example_observation,
            CallAction ''game-1'' (Wait None)
              (Inl (GameOverError 409 (JStr ''Conflict'') InProgressOutcome))])"
  by (simp add: map_error_response_def dict_get_def parse_outcome_def wire_adapter_def
      run_game_def run_game_turn_def mk_GameResult_def mock_client_def agent_always_wait_def)

text \<open>
  C5, amended. In a pass whose submit is rejected with a \<^verbatim>\<open>GameOverError\<close> that carries
  a completed or abandoned outcome (the outcomes its declared type admits), \<^verbatim>\<open>run_game\<close>
  returns the game identifier, the spectator URL and exactly that outcome: nothing is
  raised, and the submit is the last call of the run, so the decision function is not
  called again.
\<close>

theorem run_game_loop_game_over:
  assumes "agent_fn observation w = (Inr action, w1)"
      and "games_action client game_id action w1 = (Inl (GameOverError sc msg outcome), w2)"
      and "outcome \<noteq> InProgressOutcome"
  shows "run_game_loop (Suc fuel) elapse client agent_fn max_invalid_actions on_step
           game_id spectator_url observation consecutive_invalid w tr =
         Some (Inr \<lparr>gr_game_id = game_id, gr_spectator_url = spectator_url,
                     gr_outcome = outcome\<rparr>,
               w2,
               tr @ [CallAgent observation,
                     CallAction game_id action (Inl (GameOverError sc msg outcome))])"
  using assms by (simp add: run_game_turn_def mk_GameResult_final)

theorem run_game_loop_game_over_witness:
  "agent_always_wait example_observation
       [Inl (GameOverError 409 (JStr ''Game timed out'') (AbandonedOutcome timeout 1 5)),
        Inr victory_response] =
     (Inr (Wait None),
      [Inl (GameOverError 409 (JStr ''Game timed out'') (AbandonedOutcome timeout 1 5)),
       Inr victory_response]) \<and>
   games_action (mock_client no_game) ''game-1'' (Wait None)
       [Inl (GameOverError 409 (JStr ''Game timed out'') (AbandonedOutcome timeout 1 5)),
        Inr victory_response] =
     (Inl (GameOverError 409 (JStr ''Game timed out'') (AbandonedOutcome timeout 1 5)),
      [Inr victory_response]) \<and>
   AbandonedOutcome timeout 1 5 \<noteq> InProgressOutcome \<and>
   run_game_loop (Suc 0) no_elapse (mock_client no_game) agent_always_wait 5 None
       ''game-1'' ''url'' example_observation 0
       [Inl (GameOverError 409 (JStr ''Game timed out'') (AbandonedOutcome timeout 1 5)),
        Inr victory_response] [CallCreate None] =
     Some (Inr \<lparr>gr_game_id = ''game-1'', gr_spectator_url = ''url'',
                 gr_outcome = AbandonedOutcome timeout 1 5\<rparr>,
           [Inr victory_response],
           [CallCreate None] @
           [CallAgent example_observation,
            CallAction ''game-1'' (Wait None)
              (Inl (GameOverError 409 (JStr ''Game timed out'')
                      (AbandonedOutcome timeout 1 5)))])"
proof -
  let ?e = "GameOverError 409 (JStr ''Game timed out'') (AbandonedOutcome timeout 1 5)"
  let ?w = "[Inl ?e, Inr victory_response]"
  have agent: "agent_always_wait example_observation ?w = (Inr (Wait None), ?w)"
    by (simp add: agent_always_wait_def)
  have submit: "games_action (mock_client no_game) ''game-1'' (Wait None) ?w =
      (Inl ?e, [Inr victory_response])"
    by (simp add: mock_client_def)
  have final: "AbandonedOutcome timeout 1 5 \<noteq> InProgressOutcome"
    by simp
  from run_game_loop_game_over
    [where agent_fn = agent_always_wait and observation = example_observation and w = "?w"
       and action = "Wait None" and ?w1.0 = "?w" and client = "mock_client no_game"
       and game_id = "''game-1''" and sc = 409 and msg = "JStr ''Game timed out''"
       and outcome = "AbandonedOutcome timeout 1 5" and ?w2.0 = "[Inr victory_response]"
       and fuel = 0 and elapse = no_elapse and max_invalid_actions = 5 and on_step = None
       and spectator_url = "''url''" and consecutive_invalid = 0 and tr = "[CallCreate None]",
     OF agent submit final]
    agent submit final
  show ?thesis by simp
qed

section \<open>The error taxonomy\<close>

text \<open>
  The table of \<^verbatim>\<open>map_error_response\<close>, status by status, with \<open>message\<close> the body's
  \<^verbatim>\<open>error\<close> entry or \<^verbatim>\<open>"Unknown error"\<close>. For 429 the exception is a
  \<^verbatim>\<open>RateLimitError\<close> when \<^verbatim>\<open>int\<close> accepts the header, with 60 seconds when the
  header is absent.
\<close>

lemma map_error_response_table:
  "map_error_response vp 400 body headers =
     ValidationError 400 (dict_get body ''error'' (JStr ''Unknown error''))
       (dict_get body ''details'' JNull)"
  "map_error_response vp 401 body headers =
     AuthenticationError 401 (dict_get body ''error'' (JStr ''Unknown error''))"
  "map_error_response vp 403 body headers =
     ForbiddenError 403 (dict_get body ''error'' (JStr ''Unknown error''))"
  "map_error_response vp 404 body headers =
     NotFoundError 404 (dict_get body ''error'' (JStr ''Unknown error''))"
  "map_error_response vp 422 body headers =
     InvalidActionError 422 (dict_get body ''error'' (JStr ''Unknown error''))
       (dict_get body ''code'' (JStr ''UNKNOWN''))"
  "py_int (dict_get headers ''retry-after'' ''60'') = Inr retry_after \<Longrightarrow>
   map_error_response vp 429 body headers =
     RateLimitError 429 (dict_get body ''error'' (JStr ''Unknown error'')) retry_after"
  "headers ''retry-after'' = None \<Longrightarrow>
   map_error_response vp 429 body headers =
     RateLimitError 429 (dict_get body ''error'' (JStr ''Unknown error'')) 60"
  "status_code \<notin> {400, 401, 403, 404, 409, 422, 429} \<Longrightarrow>
   map_error_response vp status_code body headers =
     CrawlerAPIError status_code (dict_get body ''error'' (JStr ''Unknown error''))"
  by (simp_all add: map_error_response_def dict_get_def py_int_def py_strip_def
      py_isspace_def py_isdigit_def digit_value_def)

text \<open>
  C6. The claim gives every 429 response a rate-limit error, and \<^verbatim>\<open>map_error_response\<close>
  breaks it when the header is there and is not an integer: \<^verbatim>\<open>int\<close> raises, and a
  \<^verbatim>\<open>ValueError\<close> leaves the function in place of a \<^verbatim>\<open>RateLimitError\<close>. An HTTP date is
  a regular value of the header \<^verbatim>\<open>Retry-After\<close>.
\<close>

theorem map_error_response_retry_after_date:
  "map_error_response wire_adapter 429 [''error'' \<mapsto> JStr ''Rate limited'']
       [''retry-after'' \<mapsto> ''Wed, 21 Oct 2015 07:28:00 GMT''] =
     ValueError ''invalid literal for int() with base 10''"
  by (simp add: map_error_response_def dict_get_def py_int_def py_strip_def py_isspace_def
      py_isdigit_def int_literal_error_def)

text \<open>
  C9. For a 409 response the outcome payload is tested by its truth value. A body with
  no \<^verbatim>\<open>outcome\<close> key, with \<^verbatim>\<open>null\<close> or with an empty object under it gives the plain
  \<^verbatim>\<open>CrawlerAPIError\<close> for 409, as every payload that is not true does. A payload that is
  true goes to \<^verbatim>\<open>parse_outcome\<close>, and what it returns is the outcome of the
  \<^verbatim>\<open>GameOverError\<close> raised. A \<^verbatim>\<open>GameOverError\<close> leaves the function only when the
  payload is true.
\<close>

theorem map_error_response_conflict:
  "(body ''outcome'' = None \<or> body ''outcome'' = Some JNull \<or> body ''outcome'' = Some (JObj [])
    \<longrightarrow>
    map_error_response vp 409 body headers =
      CrawlerAPIError 409 (dict_get body ''error'' (JStr ''Unknown error'')))
   \<and>
   map_error_response vp 409 body headers =
     (if truthy (dict_get body ''outcome'' JNull)
      then (case parse_outcome vp (dict_get body ''outcome'' JNull) of
              Inl e \<Rightarrow> e
            | Inr outcome \<Rightarrow>
                GameOverError 409 (dict_get body ''error'' (JStr ''Unknown error'')) outcome)
      else CrawlerAPIError 409 (dict_get body ''error'' (JStr ''Unknown error'')))
   \<and>
   (map_error_response vp 409 body headers = GameOverError sc msg outcome
    \<longrightarrow> truthy (dict_get body ''outcome'' JNull))"
proof (intro conjI impI)
  assume "body ''outcome'' = None \<or> body ''outcome'' = Some JNull \<or>
    body ''outcome'' = Some (JObj [])"
  then have "\<not> truthy (dict_get body ''outcome'' JNull)"
    by (auto simp add: dict_get_def)
  then show "map_error_response vp 409 body headers =
      CrawlerAPIError 409 (dict_get body ''error'' (JStr ''Unknown error''))"
    by (simp add: map_error_response_def Let_def)
next
  show "map_error_response vp 409 body headers =
     (if truthy (dict_get body ''outcome'' JNull)
      then (case parse_outcome vp (dict_get body ''outcome'' JNull) of
              Inl e \<Rightarrow> e
            | Inr outcome \<Rightarrow>
                GameOverError 409 (dict_get body ''error'' (JStr ''Unknown error'')) outcome)
      else CrawlerAPIError 409 (dict_get body ''error'' (JStr ''Unknown error'')))"
    by (simp add: map_error_response_def Let_def)
next
  assume "map_error_response vp 409 body headers = GameOverError sc msg outcome"
  then show "truthy (dict_get body ''outcome'' JNull)"
    by (simp add: map_error_response_def Let_def split: if_splits)
qed

theorem map_error_response_conflict_witness:
  "[''error'' \<mapsto> JStr ''Conflict'', ''outcome'' \<mapsto> JObj []] ''outcome'' = Some (JObj []) \<and>
   map_error_response wire_adapter 409
       [''error'' \<mapsto> JStr ''Conflict'', ''outcome'' \<mapsto> JObj []] Map.empty =
     CrawlerAPIError 409 (JStr ''Conflict'') \<and>
   map_error_response wire_adapter 409
       [''error'' \<mapsto> JStr ''Game ended'',
        ''outcome'' \<mapsto> JObj [(''status'', JStr ''completed''), (''result'', JStr ''death''),
                               (''floor'', JInt 3), (''turns'', JInt 47)]] Map.empty =
     GameOverError 409 (JStr ''Game ended'') (CompletedOutcome death 3 47) \<and>
   truthy (dict_get
       [''error'' \<mapsto> JStr ''Game ended'',
        ''outcome'' \<mapsto> JObj [(''status'', JStr ''completed''), (''result'', JStr ''death''),
                               (''floor'', JInt 3), (''turns'', JInt 47)]] ''outcome'' JNull)"
proof -
  let ?empty = "[''error'' \<mapsto> JStr ''Conflict'', ''outcome'' \<mapsto> JObj []]"
  let ?ended = "[''error'' \<mapsto> JStr ''Game ended'',
        ''outcome'' \<mapsto> JObj [(''status'', JStr ''completed''), (''result'', JStr ''death''),
                               (''floor'', JInt 3), (''turns'', JInt 47)]]"
  have present: "?empty ''outcome'' = Some (JObj [])"
    by simp
  have raised: "map_error_response wire_adapter 409 ?ended Map.empty =
      GameOverError 409 (JStr ''Game ended'') (CompletedOutcome death 3 47)"
    by (simp add: map_error_response_def dict_get_def parse_outcome_def wire_adapter_def
        wire_result_def)
  from map_error_response_conflict
    [where body = "?empty" and vp = wire_adapter and headers = Map.empty,
     THEN conjunct1, THEN mp, OF disjI2 [OF disjI2 [OF present]]]
  have generic: "map_error_response wire_adapter 409 ?empty Map.empty =
      CrawlerAPIError 409 (JStr ''Conflict'')"
    by (simp add: dict_get_def)
  from map_error_response_conflict
    [where body = "?ended" and vp = wire_adapter and headers = Map.empty,
     THEN conjunct2, THEN conjunct2, THEN mp, OF raised]
  have "truthy (dict_get ?ended ''outcome'' JNull)" .
  with present generic raised show ?thesis by blast
qed

section \<open>A failing decision function\<close>

text \<open>
  C7. As stated, the claim fails for an exception that is not an instance of
  \<^verbatim>\<open>Exception\<close>: the clause \<^verbatim>\<open>except Exception\<close> does not catch a
  \<^verbatim>\<open>KeyboardInterrupt\<close> raised inside the decision function, and it leaves
  \<^verbatim>\<open>run_game\<close> as it is, with no \<^verbatim>\<open>RuntimeError\<close> around it and no game identifier or
  turn number.
\<close>

theorem run_game_agent_interrupted:
  "run_game (Suc 0) no_elapse (mock_client no_game) interrupted_agent None None 5 None
       [Inr victory_response] =
     Some (Inl (PyBaseException ''KeyboardInterrupt'' []), [Inr victory_response],
           [CallCreate None, CallAgent example_observation])"
  by (simp add: run_game_def run_game_turn_def mock_client_def interrupted_agent_def)

text \<open>
  C7, amended. For every exception the decision function raises, the run ends in that
  pass: the call of the decision function is its last call, and nothing is submitted or
  retried. An exception that is an instance of \<^verbatim>\<open>Exception\<close> is wrapped: \<^verbatim>\<open>run_game\<close>
  raises a \<^verbatim>\<open>RuntimeError\<close> whose message holds the game identifier and the turn of
  the current observation and whose cause is the original exception. An exception
  outside \<^verbatim>\<open>Exception\<close> leaves \<^verbatim>\<open>run_game\<close> unwrapped.
\<close>

theorem run_game_loop_agent_raises:
  assumes "agent_fn observation w = (Inl e, w1)"
  shows "run_game_loop (Suc fuel) elapse client agent_fn max_invalid_actions on_step
           game_id spectator_url observation consecutive_invalid w tr =
         Some (Inl (if is_Exception e
                    then RuntimeError
                           (''Agent function failed [game='' @ game_id @
                            '', turn='' @ str_int (turn observation) @ '']'') (Some e)
                    else e),
               w1, tr @ [CallAgent observation])"
  using assms by (simp add: run_game_turn_def agent_failed_message_def)

theorem run_game_loop_agent_raises_witness:
  "bad_agent example_observation [Inr victory_response] =
     (Inl (PyException ''ValueError'' ''Agent crashed''), [Inr victory_response]) \<and>
   run_game_loop (Suc 0) no_elapse (mock_client no_game) bad_agent 5 None
       ''game-1'' ''url'' example_observation 0 [Inr victory_response] [CallCreate None] =
     Some (Inl (RuntimeError ''Agent function failed [game=game-1, turn=1]''
                  (Some (PyException ''ValueError'' ''Agent crashed''))),
           [Inr victory_response], [CallCreate None, CallAgent example_observation])"
proof -
  have raises: "bad_agent example_observation [Inr victory_response] =
      (Inl (PyException ''ValueError'' ''Agent crashed''), [Inr victory_response])"
    by (simp add: bad_agent_def)
  from run_game_loop_agent_raises
    [where agent_fn = bad_agent and observation = example_observation
       and w = "[Inr victory_response]" and e = "PyException ''ValueError'' ''Agent crashed''"
       and ?w1.0 = "[Inr victory_response]" and fuel = 0 and elapse = no_elapse
       and client = "mock_client no_game" and max_invalid_actions = 5 and on_step = None
       and game_id = "''game-1''" and spectator_url = "''url''"
       and consecutive_invalid = 0 and tr = "[CallCreate None]", OF raises]
    raises
  show ?thesis
    by (simp add: example_observation_def str_int_def digit_char_def
        del: run_game_loop.simps)
qed

section \<open>The step callback\<close>







section \<open>run_game and async_run_game\<close>

lemma asyncio_sleep_nonneg:
  "0 \<le> secs \<Longrightarrow> asyncio_sleep elapse secs w = time_sleep elapse secs w"
  by (auto simp add: asyncio_sleep_def time_sleep_def)

lemma async_run_game_turn_eq:
  assumes "retry_after_nonneg client"
  shows "async_run_game_turn elapse client agent_fn max_invalid_actions on_step
           game_id spectator_url observation consecutive_invalid w tr =
         run_game_turn elapse client agent_fn max_invalid_actions on_step
           game_id spectator_url observation consecutive_invalid w tr"
proof -
  have sleep: "asyncio_sleep elapse r w2 = time_sleep elapse r w2"
    if "games_action client game_id action w1 = (Inl (RateLimitError sc msg r), w2)"
    for action w1 sc msg r w2
    using assms that unfolding retry_after_nonneg_def
    by (blast intro: asyncio_sleep_nonneg)
  show ?thesis
    unfolding async_run_game_turn_def run_game_turn_def
    by (auto simp add: sleep Let_def split: prod.splits sum.splits exn.splits)
qed

lemma async_run_game_loop_eq:
  assumes "retry_after_nonneg client"
  shows "async_run_game_loop fuel elapse client agent_fn max_invalid_actions on_step
           game_id spectator_url observation consecutive_invalid w tr =
         run_game_loop fuel elapse client agent_fn max_invalid_actions on_step
           game_id spectator_url observation consecutive_invalid w tr"
  by (induction fuel arbitrary: observation consecutive_invalid w tr)
     (simp_all add: async_run_game_turn_eq [OF assms] split: prod.splits flow.splits)

text \<open>
  Against a client that never raises a \<^verbatim>\<open>RateLimitError\<close> with a negative
  \<^verbatim>\<open>retry_after\<close>, \<^verbatim>\<open>async_run_game\<close> and \<^verbatim>\<open>run_game\<close> agree: the same result or
  exception, the same state outside, the same calls in the same order, for every fuel.
\<close>

lemma async_run_game_eq:
  assumes "retry_after_nonneg client"
  shows "async_run_game fuel elapse client agent_fn model_id game_id max_invalid_actions
           on_step w =
         run_game fuel elapse client agent_fn model_id game_id max_invalid_actions on_step w"
  by (simp add: async_run_game_def run_game_def async_run_game_loop_eq [OF assms]
      split: option.splits prod.splits sum.splits)

text \<open>
  C10. The claim makes \<^verbatim>\<open>async_run_game\<close> and \<^verbatim>\<open>run_game\<close> agree on every run, and the
  code breaks it on a \<^verbatim>\<open>RateLimitError\<close> with a negative \<^verbatim>\<open>retry_after\<close>: the same
  client, decision function and responses give a \<^verbatim>\<open>ValueError\<close> after one submit from
  \<^verbatim>\<open>run_game\<close>, and a second submit and the game's result from \<^verbatim>\<open>async_run_game\<close>.
\<close>

theorem async_run_game_differs:
  "run_game (Suc (Suc 0)) no_elapse (mock_client no_game) agent_always_wait None None 5 None
       [Inl (RateLimitError 429 (JStr ''Rate limited'') (- 1)), Inr victory_response] =
     Some (Inl (ValueError ''sleep length must be non-negative''),
           [Inr victory_response],
           [CallCreate None, CallAgent example_observation,
            CallAction ''game-1'' (Wait None)
              (Inl (RateLimitError 429 (JStr ''Rate limited'') (- 1))),
            CallSleep (- 1)]) \<and>
   async_run_game (Suc (Suc 0)) no_elapse (mock_client no_game) agent_always_wait None None 5
       None [Inl (RateLimitError 429 (JStr ''Rate limited'') (- 1)), Inr victory_response] =
     Some (Inr \<lparr>gr_game_id = ''game-1'',
                 gr_spectator_url = ''https://crawlerver.se/spectate/game-1'',
                 gr_outcome = CompletedOutcome victory 5 100\<rparr>,
           [],
           [CallCreate None, CallAgent example_observation,
            CallAction ''game-1'' (Wait None)
              (Inl (RateLimitError 429 (JStr ''Rate limited'') (- 1))),
            CallSleep (- 1),
            CallAgent example_observation,
            CallAction ''game-1'' (Wait None) (Inr victory_response)])"
  by (simp add: run_game_def run_game_turn_def async_run_game_def async_run_game_turn_def
      time_sleep_def asyncio_sleep_def call_on_step_def mock_client_def agent_always_wait_def
      no_elapse_def victory_response_def mk_GameResult_def)

end
